theory Spec2Isabelle
  imports Main "HOL-Library.Word"
begin

text \<open>
  A model of \<open>frontend/src/App.js\<close>, the client of the skill-exchange service. The
  source holds two snapshots of the file, the second adding the profile editor and the
  \<open>bio\<close> field; the functions modelled here read the same in both, and the model
  follows the second. Each component function becomes a function from the state it
  reads to the state it leaves and the list of its observable effects; the answers of
  the remote service are a parameter.
\<close>

section \<open>JavaScript strings\<close>

text \<open>
  A JavaScript string is a sequence of 16-bit code units. Program literals are written
  \<open>js ''...''\<close>. \<open>null\<close> and \<open>undefined\<close> are \<open>None\<close> of an option type.
\<close>

type_synonym jschar = "16 word"
type_synonym jsstring = "jschar list"

definition js :: "string \<Rightarrow> jsstring" where
  "js s = map of_char s"

text \<open>
  \<open>String.prototype.trim\<close> strips the code units of ECMAScript's WhiteSpace and
  LineTerminator productions from both ends: TAB, LF, VT, FF, CR, SP, NBSP, U+1680,
  U+2000 to U+200A, LS, PS, U+202F, U+205F, U+3000 and the byte order mark.
\<close>

definition isWhiteSpace :: "jschar \<Rightarrow> bool" where
  "isWhiteSpace c \<longleftrightarrow> c \<in> set [0x0009, 0x000A, 0x000B, 0x000C, 0x000D, 0x0020, 0x00A0,
      0x1680, 0x2000, 0x2001, 0x2002, 0x2003, 0x2004, 0x2005, 0x2006, 0x2007, 0x2008,
      0x2009, 0x200A, 0x2028, 0x2029, 0x202F, 0x205F, 0x3000, 0xFEFF]"

definition trim :: "jsstring \<Rightarrow> jsstring" where
  "trim s = rev (dropWhile isWhiteSpace (rev (dropWhile isWhiteSpace s)))"

text \<open>
  \<open>s.split(sep)\<close> for a separator of one code unit: scan from the left, \<open>cur\<close> is the
  substring since the last separator; every separator closes a piece, the end of the
  string closes the last one. \<open>"".split(",")\<close> is the one-element array holding the
  empty string.
\<close>

fun splitFrom :: "jschar \<Rightarrow> jsstring \<Rightarrow> jsstring \<Rightarrow> jsstring list" where
  "splitFrom sep cur [] = [cur]"
| "splitFrom sep cur (c # cs) =
     (if c = sep then cur # splitFrom sep [] cs else splitFrom sep (cur @ [c]) cs)"

definition split :: "jschar \<Rightarrow> jsstring \<Rightarrow> jsstring list" where
  "split sep s = splitFrom sep [] s"

text \<open>\<open>xs.join(sep)\<close> on an array of strings.\<close>

fun join :: "jsstring \<Rightarrow> jsstring list \<Rightarrow> jsstring" where
  "join sep [] = []"
| "join sep [x] = x"
| "join sep (x # y # ys) = x @ sep @ join sep (y # ys)"

definition comma :: jschar where
  "comma = of_char CHR '',''"

text \<open>A string is truthy when it is neither \<open>null\<close> nor empty.\<close>

definition truthy :: "jsstring option \<Rightarrow> bool" where
  "truthy v = (case v of None \<Rightarrow> False | Some s \<Rightarrow> s \<noteq> [])"

text \<open>\<open>v || ""\<close> for a string or \<open>null\<close>.\<close>

definition orEmpty :: "jsstring option \<Rightarrow> jsstring" where
  "orEmpty v = (case v of None \<Rightarrow> [] | Some s \<Rightarrow> s)"

section \<open>Data\<close>

text \<open>
  The form state of \<open>RegisterForm\<close> and \<open>ProfileModal\<close>, and the objects they send:
  the two skills fields are text in the form and arrays in the payload, the rest is
  copied by the spread \<open>...formData\<close>.
\<close>

record 'sk profileData =
  name :: jsstring
  location :: jsstring
  bio :: jsstring
  skills_offered :: 'sk
  skills_wanted :: 'sk
  availability :: jsstring
  is_public :: bool

record 'sk registerData = "'sk profileData" +
  email :: jsstring
  password :: jsstring

text \<open>A User as the backend returns it; optional fields may be absent.\<close>

record user =
  user_id :: jsstring
  user_name :: "jsstring option"
  user_location :: "jsstring option"
  user_bio :: "jsstring option"
  user_skills_offered :: "jsstring list option"
  user_skills_wanted :: "jsstring list option"
  user_availability :: "jsstring option"
  user_is_public :: "bool option"

record swapRequest =
  request_id :: jsstring
  requester_id :: jsstring
  target_user_id :: jsstring
  requested_skill :: jsstring
  offered_skill :: jsstring
  status :: jsstring

section \<open>The backend and the effects of a call\<close>

text \<open>
  Every HTTP request the client issues, with the bearer token of its Authorization
  header where it has one.
\<close>

datatype request =
    POST_auth_login jsstring jsstring
  | POST_auth_register "jsstring list registerData"
  | GET_auth_me "jsstring option"
  | GET_users "jsstring option"
  | GET_users_search jsstring "jsstring option"
  | GET_my_requests "jsstring option"
  | GET_incoming "jsstring option"
  | POST_swap_requests jsstring jsstring jsstring "jsstring option"
  | PUT_swap_requests jsstring jsstring "jsstring option"
  | DELETE_swap_requests jsstring "jsstring option"
  | PUT_users_me "jsstring list profileData" "jsstring option"

text \<open>
  What is observable of an operation besides the state it leaves: the requests sent,
  the blocking \<open>alert\<close> dialogs and the \<open>console.error\<close> lines, in order.
\<close>

datatype event = Call request | Alert string | ConsoleError string

text \<open>
  A rejected axios promise: a response with a status outside 2xx (invalid credentials,
  a validation error, a rejected token) or no response at all. Every \<open>catch\<close> block of
  the client takes either the same way.
\<close>

datatype failure = HttpError nat | NetworkError

text \<open>
  The answers of the remote service, one function per endpoint of the contract:
  \<open>Inl\<close> is the rejection, \<open>Inr\<close> the \<open>data\<close> of the response.
\<close>

record backend =
  auth_login :: "jsstring \<Rightarrow> jsstring \<Rightarrow> failure + jsstring"
  auth_register :: "jsstring list registerData \<Rightarrow> failure + jsstring"
  auth_me :: "jsstring option \<Rightarrow> failure + user"
  users_list :: "jsstring option \<Rightarrow> failure + user list"
  users_search :: "jsstring \<Rightarrow> jsstring option \<Rightarrow> failure + user list"
  swap_my_requests :: "jsstring option \<Rightarrow> failure + swapRequest list"
  swap_incoming :: "jsstring option \<Rightarrow> failure + swapRequest list"
  swap_create :: "jsstring \<Rightarrow> jsstring \<Rightarrow> jsstring \<Rightarrow> jsstring option \<Rightarrow> failure + unit"
  swap_update :: "jsstring \<Rightarrow> jsstring \<Rightarrow> jsstring option \<Rightarrow> failure + unit"
  swap_delete :: "jsstring \<Rightarrow> jsstring option \<Rightarrow> failure + unit"
  users_me_update :: "jsstring list profileData \<Rightarrow> jsstring option \<Rightarrow> failure + unit"

section \<open>AuthProvider: the session store\<close>

text \<open>
  The two state cells of \<open>AuthProvider\<close> and the \<open>token\<close> entry of \<open>localStorage\<close>.
\<close>

record auth =
  user :: "user option"
  token :: "jsstring option"
  stored_token :: "jsstring option"

definition logout :: "auth \<Rightarrow> auth" where
  "logout a = a\<lparr>token := None, user := None, stored_token := None\<rparr>"

definition fetchUser :: "backend \<Rightarrow> auth \<Rightarrow> auth \<times> event list" where
  "fetchUser be a =
     (case auth_me be (token a) of
        Inr u \<Rightarrow> (a\<lparr>user := Some u\<rparr>, [Call (GET_auth_me (token a))])
      | Inl error \<Rightarrow> (logout a,
          [Call (GET_auth_me (token a)), ConsoleError ''Failed to fetch user:'']))"

text \<open>
  \<open>localStorage.setItem('token', v)\<close> stores \<open>v\<close> or throws (a full or a disabled
  storage): \<open>setItem v\<close> tells whether it stores. In \<open>login\<close> and \<open>register\<close> the write
  stands inside the \<open>try\<close>, after \<open>setToken\<close>: when it throws, the token in memory is
  already replaced and the \<open>catch\<close> block returns false. Reading and removing the entry
  are taken to succeed.
\<close>

definition login ::
  "backend \<Rightarrow> (jsstring \<Rightarrow> bool) \<Rightarrow> jsstring \<Rightarrow> jsstring \<Rightarrow> auth
     \<Rightarrow> bool \<times> auth \<times> event list" where
  "login be setItem em pw a =
     (case auth_login be em pw of
        Inr access_token \<Rightarrow>
          (if setItem access_token
           then (True, a\<lparr>token := Some access_token, stored_token := Some access_token\<rparr>,
                 [Call (POST_auth_login em pw)])
           else (False, a\<lparr>token := Some access_token\<rparr>,
                 [Call (POST_auth_login em pw), ConsoleError ''Login failed:'']))
      | Inl error \<Rightarrow> (False, a, [Call (POST_auth_login em pw), ConsoleError ''Login failed:'']))"

definition register ::
  "backend \<Rightarrow> (jsstring \<Rightarrow> bool) \<Rightarrow> jsstring list registerData \<Rightarrow> auth
     \<Rightarrow> bool \<times> auth \<times> event list" where
  "register be setItem userData a =
     (case auth_register be userData of
        Inr access_token \<Rightarrow>
          (if setItem access_token
           then (True, a\<lparr>token := Some access_token, stored_token := Some access_token\<rparr>,
                 [Call (POST_auth_register userData)])
           else (False, a\<lparr>token := Some access_token\<rparr>,
                 [Call (POST_auth_register userData), ConsoleError ''Registration failed:'']))
      | Inl error \<Rightarrow> (False, a,
          [Call (POST_auth_register userData), ConsoleError ''Registration failed:'']))"

text \<open>
  Mounting the provider: \<open>user\<close> starts as \<open>null\<close>, \<open>token\<close> as the stored token, and
  the effect on \<open>[token]\<close> calls \<open>fetchUser\<close> when the token is truthy.
\<close>

definition AuthProvider_init :: "jsstring option \<Rightarrow> auth" where
  "AuthProvider_init stored = \<lparr>user = None, token = stored, stored_token = stored\<rparr>"

definition AuthProvider_effect :: "backend \<Rightarrow> auth \<Rightarrow> auth \<times> event list" where
  "AuthProvider_effect be a = (if truthy (token a) then fetchUser be a else (a, []))"

definition AuthProvider_mount :: "backend \<Rightarrow> jsstring option \<Rightarrow> auth \<times> event list" where
  "AuthProvider_mount be stored = AuthProvider_effect be (AuthProvider_init stored)"

section \<open>LoginForm, RegisterForm and ProfileModal\<close>

text \<open>
  \<open>LoginForm.handleSubmit\<close>: the component state is the two inputs and the
  \<open>loading\<close> flag, which is raised for the call and lowered at the end.
\<close>

definition LoginForm_handleSubmit ::
  "backend \<Rightarrow> (jsstring \<Rightarrow> bool) \<Rightarrow> jsstring \<times> jsstring \<times> bool \<Rightarrow> auth
     \<Rightarrow> (jsstring \<times> jsstring \<times> bool) \<times> auth \<times> event list" where
  "LoginForm_handleSubmit be setItem st a =
     (let (em, pw, busy) = st;
          (success, a', evs) = login be setItem em pw a
      in ((em, pw, False), a',
          evs @ (if success then []
                 else [Alert ''Login failed. Please check your credentials.''])))"

text \<open>
  \<open>RegisterForm.handleSubmit\<close>: the component state is the form and the \<open>loading\<close>
  flag.
\<close>

definition RegisterForm_userData :: "jsstring registerData \<Rightarrow> jsstring list registerData" where
  "RegisterForm_userData formData =
     \<lparr>name = name formData, location = location formData, bio = bio formData,
      skills_offered =
        filter (\<lambda>s. s \<noteq> []) (map trim (split comma (skills_offered formData))),
      skills_wanted =
        filter (\<lambda>s. s \<noteq> []) (map trim (split comma (skills_wanted formData))),
      availability = availability formData, is_public = is_public formData,
      email = email formData, password = password formData\<rparr>"

definition RegisterForm_handleSubmit ::
  "backend \<Rightarrow> (jsstring \<Rightarrow> bool) \<Rightarrow> jsstring registerData \<times> bool \<Rightarrow> auth
     \<Rightarrow> (jsstring registerData \<times> bool) \<times> auth \<times> event list" where
  "RegisterForm_handleSubmit be setItem st a =
     (let formData = fst st;
          userData = RegisterForm_userData formData;
          (success, a', evs) = register be setItem userData a
      in ((formData, False), a',
          evs @ (if success then [] else [Alert ''Registration failed. Please try again.''])))"

text \<open>
  \<open>ProfileModal\<close>: the effect on \<open>[user]\<close> fills the form from the session's user;
  \<open>handleSubmit\<close> sends the form, refreshes the user and closes the modal, or alerts.
  The result of \<open>handleSubmit\<close> is the session, whether \<open>onClose\<close> was called, and the
  events; \<open>saving\<close> ends lowered either way.
\<close>

definition ProfileModal_load :: "user option \<Rightarrow> jsstring profileData \<Rightarrow> jsstring profileData" where
  "ProfileModal_load usr formData =
     (case usr of
        None \<Rightarrow> formData
      | Some u \<Rightarrow>
         \<lparr>name = orEmpty (user_name u), location = orEmpty (user_location u),
          bio = orEmpty (user_bio u),
          skills_offered = orEmpty (map_option (join (js '', '')) (user_skills_offered u)),
          skills_wanted = orEmpty (map_option (join (js '', '')) (user_skills_wanted u)),
          availability = orEmpty (user_availability u),
          is_public = (case user_is_public u of None \<Rightarrow> True | Some b \<Rightarrow> b)\<rparr>)"

definition ProfileModal_updateData :: "jsstring profileData \<Rightarrow> jsstring list profileData" where
  "ProfileModal_updateData formData =
     \<lparr>name = name formData, location = location formData, bio = bio formData,
      skills_offered =
        filter (\<lambda>s. s \<noteq> []) (map trim (split comma (skills_offered formData))),
      skills_wanted =
        filter (\<lambda>s. s \<noteq> []) (map trim (split comma (skills_wanted formData))),
      availability = availability formData, is_public = is_public formData\<rparr>"

definition ProfileModal_handleSubmit ::
  "backend \<Rightarrow> jsstring profileData \<Rightarrow> auth \<Rightarrow> auth \<times> bool \<times> event list" where
  "ProfileModal_handleSubmit be formData a =
     (let updateData = ProfileModal_updateData formData;
          bearer = stored_token a
      in case users_me_update be updateData bearer of
           Inr _ \<Rightarrow>
             (let (a', evs) = fetchUser be a
              in (a', True,
                  [Call (PUT_users_me updateData bearer)] @ evs
                    @ [Alert ''Profile updated successfully!'']))
         | Inl error \<Rightarrow>
             (a, False,
              [Call (PUT_users_me updateData bearer),
               ConsoleError ''Failed to update profile:'',
               Alert ''Failed to update profile. Please try again.'']))"

section \<open>Dashboard\<close>

text \<open>
  The state cells of \<open>Dashboard\<close>. Its \<open>authHeaders\<close> carry the token read from
  \<open>localStorage\<close> when the component renders; the operations take it as \<open>bearer\<close>.
\<close>

record dashboard =
  activeTab :: jsstring
  users :: "user list"
  myRequests :: "swapRequest list"
  incomingRequests :: "swapRequest list"
  searchTerm :: jsstring
  loading :: bool
  showProfileModal :: bool

definition fetchUsers :: "backend \<Rightarrow> jsstring option \<Rightarrow> dashboard \<Rightarrow> dashboard \<times> event list" where
  "fetchUsers be bearer d =
     (case users_list be bearer of
        Inr data \<Rightarrow> (d\<lparr>users := data, loading := False\<rparr>, [Call (GET_users bearer)])
      | Inl error \<Rightarrow> (d\<lparr>loading := False\<rparr>,
          [Call (GET_users bearer), ConsoleError ''Failed to fetch users:'']))"

definition fetchMyRequests ::
  "backend \<Rightarrow> jsstring option \<Rightarrow> dashboard \<Rightarrow> dashboard \<times> event list" where
  "fetchMyRequests be bearer d =
     (case swap_my_requests be bearer of
        Inr data \<Rightarrow> (d\<lparr>myRequests := data, loading := False\<rparr>, [Call (GET_my_requests bearer)])
      | Inl error \<Rightarrow> (d\<lparr>loading := False\<rparr>,
          [Call (GET_my_requests bearer), ConsoleError ''Failed to fetch requests:'']))"

definition fetchIncomingRequests ::
  "backend \<Rightarrow> jsstring option \<Rightarrow> dashboard \<Rightarrow> dashboard \<times> event list" where
  "fetchIncomingRequests be bearer d =
     (case swap_incoming be bearer of
        Inr data \<Rightarrow>
          (d\<lparr>incomingRequests := data, loading := False\<rparr>, [Call (GET_incoming bearer)])
      | Inl error \<Rightarrow> (d\<lparr>loading := False\<rparr>,
          [Call (GET_incoming bearer), ConsoleError ''Failed to fetch incoming requests:'']))"

text \<open>
  The effect on \<open>[activeTab]\<close>: it runs when the dashboard mounts and whenever a click
  on a tab button changes \<open>activeTab\<close>.
\<close>

definition Dashboard_effect ::
  "backend \<Rightarrow> jsstring option \<Rightarrow> dashboard \<Rightarrow> dashboard \<times> event list" where
  "Dashboard_effect be bearer d =
     (if activeTab d = js ''browse'' then fetchUsers be bearer d
      else if activeTab d = js ''my-requests'' then fetchMyRequests be bearer d
      else if activeTab d = js ''incoming'' then fetchIncomingRequests be bearer d
      else (d, []))"

definition setActiveTab ::
  "backend \<Rightarrow> jsstring option \<Rightarrow> jsstring \<Rightarrow> dashboard \<Rightarrow> dashboard \<times> event list" where
  "setActiveTab be bearer tab d =
     (if tab = activeTab d then (d, []) else Dashboard_effect be bearer (d\<lparr>activeTab := tab\<rparr>))"

definition searchBySkill ::
  "backend \<Rightarrow> jsstring option \<Rightarrow> dashboard \<Rightarrow> dashboard \<times> event list" where
  "searchBySkill be bearer d =
     (if trim (searchTerm d) = [] then (d, [])
      else (case users_search be (searchTerm d) bearer of
              Inr data \<Rightarrow>
                (d\<lparr>users := data, loading := False\<rparr>,
                 [Call (GET_users_search (searchTerm d) bearer)])
            | Inl error \<Rightarrow> (d\<lparr>loading := False\<rparr>,
                [Call (GET_users_search (searchTerm d) bearer),
                 ConsoleError ''Search failed:''])))"

definition createSwapRequest ::
  "backend \<Rightarrow> jsstring option \<Rightarrow> jsstring \<Rightarrow> jsstring \<Rightarrow> jsstring \<Rightarrow> dashboard
     \<Rightarrow> dashboard \<times> event list" where
  "createSwapRequest be bearer targetUserId requestedSkill offeredSkill d =
     (case swap_create be targetUserId requestedSkill offeredSkill bearer of
        Inr _ \<Rightarrow>
          (d, [Call (POST_swap_requests targetUserId requestedSkill offeredSkill bearer),
               Alert ''Swap request sent successfully!''])
      | Inl error \<Rightarrow>
          (d, [Call (POST_swap_requests targetUserId requestedSkill offeredSkill bearer),
               ConsoleError ''Failed to create swap request:'',
               Alert ''Failed to send swap request'']))"

definition updateSwapRequest ::
  "backend \<Rightarrow> jsstring option \<Rightarrow> jsstring \<Rightarrow> jsstring \<Rightarrow> dashboard
     \<Rightarrow> dashboard \<times> event list" where
  "updateSwapRequest be bearer requestId newStatus d =
     (case swap_update be requestId newStatus bearer of
        Inr _ \<Rightarrow>
          (let (d', evs) =
                 (if activeTab d = js ''incoming'' then fetchIncomingRequests be bearer d
                  else fetchMyRequests be bearer d)
           in (d', Call (PUT_swap_requests requestId newStatus bearer) # evs))
      | Inl error \<Rightarrow>
          (d, [Call (PUT_swap_requests requestId newStatus bearer),
               ConsoleError ''Failed to update swap request:'']))"

definition deleteSwapRequest ::
  "backend \<Rightarrow> jsstring option \<Rightarrow> jsstring \<Rightarrow> dashboard \<Rightarrow> dashboard \<times> event list" where
  "deleteSwapRequest be bearer requestId d =
     (case swap_delete be requestId bearer of
        Inr _ \<Rightarrow>
          (let (d', evs) = fetchMyRequests be bearer d
           in (d', Call (DELETE_swap_requests requestId bearer) # evs))
      | Inl error \<Rightarrow>
          (d, [Call (DELETE_swap_requests requestId bearer),
               ConsoleError ''Failed to delete swap request:'']))"

text \<open>
  The click handler of the button of \<open>UserCard\<close>, the only caller of
  \<open>createSwapRequest\<close>: the two arguments are what the two \<open>prompt\<close> dialogs returned
  (\<open>null\<close> when dismissed).
\<close>

definition UserCard_onClick ::
  "backend \<Rightarrow> jsstring option \<Rightarrow> user \<Rightarrow> jsstring option \<Rightarrow> jsstring option \<Rightarrow> dashboard
     \<Rightarrow> dashboard \<times> event list" where
  "UserCard_onClick be bearer targetUser requestedSkill offeredSkill d =
     (if truthy requestedSkill \<and> truthy offeredSkill
      then createSwapRequest be bearer (user_id targetUser)
             (orEmpty requestedSkill) (orEmpty offeredSkill) d
      else (d, []))"

text \<open>
  The buttons \<open>SwapRequestCard\<close> renders, each with its label and what its click
  handler calls. \<open>type\<close> is \<open>outgoing\<close> in the list of \<open>myRequests\<close> and \<open>incoming\<close> in
  the list of \<open>incomingRequests\<close>.
\<close>

datatype handler =
    call_updateSwapRequest jsstring jsstring
  | call_deleteSwapRequest jsstring

type_synonym button = "string \<times> handler"

definition SwapRequestCard :: "swapRequest \<Rightarrow> jsstring \<Rightarrow> button list" where
  "SwapRequestCard request type =
     (if type = js ''incoming'' \<and> status request = js ''pending''
      then [(''Accept'', call_updateSwapRequest (request_id request) (js ''accepted'')),
            (''Reject'', call_updateSwapRequest (request_id request) (js ''rejected''))]
      else [])
     @ (if type = js ''outgoing'' \<and> status request = js ''pending''
        then [(''Cancel Request'', call_deleteSwapRequest (request_id request))]
        else [])
     @ (if status request = js ''accepted''
        then [(''Mark as Completed'',
               call_updateSwapRequest (request_id request) (js ''completed''))]
        else [])"

text \<open>
  The user cards of the browse tab: none while \<open>loading\<close>, otherwise one for each
  entry of \<open>users\<close> that passes \<open>u.id !== user?.id\<close>. With no session user the right
  side is \<open>undefined\<close>, which no id equals.
\<close>

definition browseCards :: "user option \<Rightarrow> dashboard \<Rightarrow> user list" where
  "browseCards usr d =
     (if loading d then []
      else filter (\<lambda>u. Some (user_id u) \<noteq> map_option user_id usr) (users d))"

section \<open>The specification's vocabulary\<close>

subsection \<open>Skill lists\<close>

text \<open>
  \<open>parseSkills\<close> names the expression \<open>field.split(",").map(s => s.trim()).filter(s => s)\<close>
  that both forms apply to a skills field. Beside it, ``split on commas, each piece
  trimmed, empty pieces discarded'' written without the scanner: the pieces of a text
  are what lies between its commas.
\<close>

definition parseSkills :: "jsstring \<Rightarrow> jsstring list" where
  "parseSkills field = filter (\<lambda>s. s \<noteq> []) (map trim (split comma field))"

definition space :: jschar where
  "space = of_char CHR '' ''"

fun pieces :: "jsstring \<Rightarrow> jsstring list" where
  "pieces [] = [[]]"
| "pieces (c # cs) =
     (if c = comma then [] # pieces cs else (c # hd (pieces cs)) # tl (pieces cs))"

definition commaSplitTrimmedNonEmpty :: "jsstring \<Rightarrow> jsstring list" where
  "commaSplitTrimmedNonEmpty field = [trim p. p \<leftarrow> pieces field, trim p \<noteq> []]"

text \<open>The skill lists a request carries to the server, if it carries any.\<close>

fun transmittedSkills :: "event \<Rightarrow> (jsstring list \<times> jsstring list) list" where
  "transmittedSkills (Call (POST_auth_register userData)) =
     [(skills_offered userData, skills_wanted userData)]"
| "transmittedSkills (Call (PUT_users_me updateData bearer)) =
     [(skills_offered updateData, skills_wanted updateData)]"
| "transmittedSkills _ = []"

text \<open>A label that is not empty, has no whitespace at either end and no comma.\<close>

definition wellFormedLabel :: "jsstring \<Rightarrow> bool" where
  "wellFormedLabel l \<longleftrightarrow> l \<noteq> [] \<and> trim l = l \<and> comma \<notin> set l"

subsection \<open>The lifecycle of a swap request\<close>

text \<open>
  The states, the two parties, and the rows of the transition table that start from an
  existing request: from, to, and who may trigger it.
\<close>

datatype lifecycle = Pending | Accepted | Rejected | Completed | Cancelled

datatype actor = Requester | TargetUser

definition transitionTable :: "(lifecycle \<times> lifecycle \<times> actor list) list" where
  "transitionTable =
     [(Pending, Accepted, [TargetUser]),
      (Pending, Rejected, [TargetUser]),
      (Pending, Cancelled, [Requester]),
      (Accepted, Completed, [Requester, TargetUser])]"

definition legalTransitions :: "lifecycle \<Rightarrow> actor \<Rightarrow> lifecycle list" where
  "legalTransitions s a = [t. (f, t, who) \<leftarrow> transitionTable, f = s, a \<in> set who]"

text \<open>
  How the client spells them: the status strings, the \<open>type\<close> of the list each party
  sees the request in, and the manager call that performs a transition (cancelling is
  the delete call, every other one an update to the new status).
\<close>

fun statusName :: "lifecycle \<Rightarrow> jsstring" where
  "statusName Pending = js ''pending''"
| "statusName Accepted = js ''accepted''"
| "statusName Rejected = js ''rejected''"
| "statusName Completed = js ''completed''"
| "statusName Cancelled = js ''cancelled''"

fun listType :: "actor \<Rightarrow> jsstring" where
  "listType Requester = js ''outgoing''"
| "listType TargetUser = js ''incoming''"

fun handlerFor :: "jsstring \<Rightarrow> lifecycle \<Rightarrow> handler" where
  "handlerFor i Cancelled = call_deleteSwapRequest i"
| "handlerFor i t = call_updateSwapRequest i (statusName t)"

fun expectedLabels :: "lifecycle \<Rightarrow> actor \<Rightarrow> string list" where
  "expectedLabels Pending TargetUser = [''Accept'', ''Reject'']"
| "expectedLabels Pending Requester = [''Cancel Request'']"
| "expectedLabels Accepted _ = [''Mark as Completed'']"
| "expectedLabels _ _ = []"

subsection \<open>Reading the effects of an operation\<close>

text \<open>
  Whether an event is a fetch of one of the two request lists, a blocking notification,
  or the request that creates a swap request.
\<close>

fun isListFetch :: "event \<Rightarrow> bool" where
  "isListFetch (Call (GET_my_requests bearer)) = True"
| "isListFetch (Call (GET_incoming bearer)) = True"
| "isListFetch _ = False"

fun isAlert :: "event \<Rightarrow> bool" where
  "isAlert (Alert message) = True"
| "isAlert _ = False"

fun isCreateCall :: "event \<Rightarrow> bool" where
  "isCreateCall (Call (POST_swap_requests target requested offered bearer)) = True"
| "isCreateCall _ = False"

text \<open>
  A list after it was fetched again: the server's answer, or the list as it was when the
  fetch itself failed.
\<close>

definition refetched :: "'a list \<Rightarrow> failure + 'a list \<Rightarrow> 'a list" where
  "refetched local response = (case response of Inr data \<Rightarrow> data | Inl error \<Rightarrow> local)"

text \<open>The session after a logout: no user, no token, nothing stored.\<close>

definition loggedOut :: auth where
  "loggedOut = \<lparr>user = None, token = None, stored_token = None\<rparr>"

section \<open>Sample values\<close>

text \<open>Two users, a request between them, two services (one that is unreachable and
  one that answers every call) and two storages (one that takes every write and one
  that is full).\<close>

definition alice :: user where
  "alice = \<lparr>user_id = js ''u-alice'', user_name = Some (js ''Alice''), user_location = None,
     user_bio = None, user_skills_offered = Some [js ''Guitar'', js ''Cooking''],
     user_skills_wanted = Some [js ''Spanish''], user_availability = None,
     user_is_public = Some True\<rparr>"

definition bob :: user where
  "bob = \<lparr>user_id = js ''u-bob'', user_name = Some (js ''Bob''), user_location = None,
     user_bio = None, user_skills_offered = Some [js ''Spanish''],
     user_skills_wanted = Some [js ''Guitar''], user_availability = None,
     user_is_public = Some True\<rparr>"

definition guitarRequest :: swapRequest where
  "guitarRequest = \<lparr>request_id = js ''r-1'', requester_id = js ''u-bob'',
     target_user_id = js ''u-alice'', requested_skill = js ''Guitar'',
     offered_skill = js ''Spanish'', status = js ''pending''\<rparr>"

definition offlineBackend :: backend where
  "offlineBackend = \<lparr>
     auth_login = (\<lambda>em pw. Inl NetworkError),
     auth_register = (\<lambda>userData. Inl NetworkError),
     auth_me = (\<lambda>bearer. Inl NetworkError),
     users_list = (\<lambda>bearer. Inl NetworkError),
     users_search = (\<lambda>term bearer. Inl NetworkError),
     swap_my_requests = (\<lambda>bearer. Inl NetworkError),
     swap_incoming = (\<lambda>bearer. Inl NetworkError),
     swap_create = (\<lambda>target requested offered bearer. Inl NetworkError),
     swap_update = (\<lambda>requestId newStatus bearer. Inl NetworkError),
     swap_delete = (\<lambda>requestId bearer. Inl NetworkError),
     users_me_update = (\<lambda>updateData bearer. Inl NetworkError)\<rparr>"

definition onlineBackend :: backend where
  "onlineBackend = \<lparr>
     auth_login = (\<lambda>em pw. Inr (js ''token-2'')),
     auth_register = (\<lambda>userData. Inr (js ''token-2'')),
     auth_me = (\<lambda>bearer. Inr alice),
     users_list = (\<lambda>bearer. Inr [alice, bob]),
     users_search = (\<lambda>term bearer. Inr [bob]),
     swap_my_requests = (\<lambda>bearer. Inr [guitarRequest]),
     swap_incoming = (\<lambda>bearer. Inr [guitarRequest]),
     swap_create = (\<lambda>target requested offered bearer. Inr ()),
     swap_update = (\<lambda>requestId newStatus bearer. Inr ()),
     swap_delete = (\<lambda>requestId bearer. Inr ()),
     users_me_update = (\<lambda>updateData bearer. Inr ())\<rparr>"

definition roomyStorage :: "jsstring \<Rightarrow> bool" where
  "roomyStorage v = True"


definition aliceSession :: auth where
  "aliceSession = \<lparr>user = Some alice, token = Some (js ''token-1''),
     stored_token = Some (js ''token-1'')\<rparr>"

definition emptyProfileForm :: "jsstring profileData" where
  "emptyProfileForm = \<lparr>name = [], location = [], bio = [], skills_offered = [],
     skills_wanted = [], availability = [], is_public = True\<rparr>"

definition emptyRegisterForm :: "jsstring registerData" where
  "emptyRegisterForm = \<lparr>name = [], location = [], bio = [], skills_offered = [],
     skills_wanted = [], availability = [], is_public = True, email = [], password = []\<rparr>"

definition freshDashboard :: dashboard where
  "freshDashboard = \<lparr>activeTab = js ''browse'', users = [], myRequests = [],
     incomingRequests = [], searchTerm = [], loading = False, showProfileModal = False\<rparr>"

definition incomingTab :: dashboard where
  "incomingTab = freshDashboard\<lparr>activeTab := js ''incoming''\<rparr>"

definition guitarSearch :: dashboard where
  "guitarSearch = freshDashboard\<lparr>users := [alice, bob], searchTerm := js ''Guitar''\<rparr>"

section \<open>Facts about strings\<close>

lemma pieces_nonempty: "pieces s \<noteq> []"
  by (induction s) auto

lemma splitFrom_pieces: "splitFrom comma cur s = (cur @ hd (pieces s)) # tl (pieces s)"
  using pieces_nonempty by (induction s arbitrary: cur) (auto simp: hd_Cons_tl)

lemma split_pieces: "split comma s = pieces s"
  by (simp add: split_def splitFrom_pieces pieces_nonempty)

lemma filter_map_comprehension:
  "filter (\<lambda>s. s \<noteq> []) (map f xs) = [f p. p \<leftarrow> xs, f p \<noteq> []]"
  by (induction xs) auto

lemma parseSkills_spec: "parseSkills field = commaSplitTrimmedNonEmpty field"
  by (simp add: parseSkills_def commaSplitTrimmedNonEmpty_def split_pieces
      filter_map_comprehension)

lemma splitFrom_no_sep: "sep \<notin> set p \<Longrightarrow> splitFrom sep cur p = [cur @ p]"
  by (induction p arbitrary: cur) auto

lemma splitFrom_sep:
  "sep \<notin> set p \<Longrightarrow> splitFrom sep cur (p @ sep # rest) = (cur @ p) # splitFrom sep [] rest"
  by (induction p arbitrary: cur) auto

lemma isWhiteSpace_space: "isWhiteSpace space"
  by (simp add: isWhiteSpace_def space_def)

lemma trim_leading: "isWhiteSpace c \<Longrightarrow> trim (c # s) = trim s"
  by (simp add: trim_def)

lemma js_comma_space: "js '', '' = [comma, space]"
  by (simp add: js_def comma_def space_def)

lemma comma_not_space: "space \<noteq> comma"
  by (simp add: comma_def space_def)

lemma map_trim_splitFrom_join:
  "\<forall>l \<in> set (y # ys). wellFormedLabel l \<Longrightarrow>
   map trim (splitFrom comma cur (join (js '', '') (y # ys))) = trim (cur @ y) # ys"
proof (induction ys arbitrary: cur y)
  case Nil
  then show ?case by (simp add: wellFormedLabel_def splitFrom_no_sep)
next
  case (Cons z zs)
  have y: "comma \<notin> set y" using Cons.prems by (simp add: wellFormedLabel_def)
  have z: "trim z = z" using Cons.prems by (simp add: wellFormedLabel_def)
  have "join (js '', '') (y # z # zs) = y @ comma # (space # join (js '', '') (z # zs))"
    by (simp add: js_comma_space)
  then have "splitFrom comma cur (join (js '', '') (y # z # zs))
      = (cur @ y) # splitFrom comma [space] (join (js '', '') (z # zs))"
    using splitFrom_sep [OF y] comma_not_space by simp
  moreover have "map trim (splitFrom comma [space] (join (js '', '') (z # zs)))
      = trim ([space] @ z) # zs"
    using Cons.IH [where y = z and cur = "[space]"] Cons.prems by simp
  ultimately show ?case
    using z by (simp add: trim_leading isWhiteSpace_space)
qed

lemma parseSkills_join:
  assumes "\<forall>l \<in> set labels. wellFormedLabel l"
  shows "parseSkills (join (js '', '') labels) = labels"
proof (cases labels)
  case Nil
  then show ?thesis by (simp add: parseSkills_def split_def trim_def)
next
  case (Cons y ys)
  have "map trim (split comma (join (js '', '') labels)) = y # ys"
    using map_trim_splitFrom_join [of y ys "[]"] assms Cons
    by (simp add: split_def wellFormedLabel_def)
  moreover have "filter (\<lambda>s. s \<noteq> []) (y # ys) = y # ys"
    using assms Cons by (auto simp: wellFormedLabel_def filter_id_conv)
  ultimately show ?thesis using Cons by (simp add: parseSkills_def)
qed

text \<open>The pieces of a text are what joining them with commas gives the text back from,
  and none of them holds a comma.\<close>

lemma join_Cons_Cons: "join sep ((c # p) # ps) = c # join sep (p # ps)"
  by (cases ps) auto

lemma join_Cons: "ps \<noteq> [] \<Longrightarrow> join sep ((c # hd ps) # tl ps) = c # join sep ps"
  by (cases ps) (auto simp: join_Cons_Cons)

lemma join_Nil_Cons: "ps \<noteq> [] \<Longrightarrow> join sep ([] # ps) = sep @ join sep ps"
  by (cases ps) auto

lemma pieces_join: "join [comma] (pieces s) = s"
  by (induction s) (simp_all add: join_Cons join_Nil_Cons pieces_nonempty)

lemma pieces_no_comma: "p \<in> set (pieces s) \<Longrightarrow> comma \<notin> set p"
proof (induction s arbitrary: p)
  case Nil
  then show ?case by simp
next
  case (Cons c cs)
  have "pieces cs = hd (pieces cs) # tl (pieces cs)"
    using pieces_nonempty by simp
  then have mem: "hd (pieces cs) \<in> set (pieces cs)" "set (tl (pieces cs)) \<subseteq> set (pieces cs)"
    by (metis list.set_intros(1), metis list.set_intros(2) subsetI)
  show ?case
    using Cons.prems Cons.IH mem by (auto split: if_splits)
qed

lemma statusName_distinct:
  "js ''pending'' \<noteq> js ''accepted''" "js ''accepted'' \<noteq> js ''pending''"
  "js ''rejected'' \<noteq> js ''pending''" "js ''rejected'' \<noteq> js ''accepted''"
  "js ''completed'' \<noteq> js ''pending''" "js ''completed'' \<noteq> js ''accepted''"
  "js ''cancelled'' \<noteq> js ''pending''" "js ''cancelled'' \<noteq> js ''accepted''"
  "js ''outgoing'' \<noteq> js ''incoming''" "js ''incoming'' \<noteq> js ''outgoing''"
  by (simp_all add: js_def)

section \<open>Facts about the forms\<close>

lemma transmitted_register:
  "concat (map transmittedSkills (snd (snd (register be setItem userData a))))
     = [(skills_offered userData, skills_wanted userData)]"
  by (simp add: register_def split: sum.splits)

lemma transmitted_fetchUser:
  "concat (map transmittedSkills (snd (fetchUser be a))) = []"
  by (simp add: fetchUser_def split: sum.splits)

lemma RegisterForm_userData_skills:
  "skills_offered (RegisterForm_userData formData) = parseSkills (skills_offered formData)"
  "skills_wanted (RegisterForm_userData formData) = parseSkills (skills_wanted formData)"
  by (simp_all add: RegisterForm_userData_def parseSkills_def)

lemma ProfileModal_updateData_skills:
  "skills_offered (ProfileModal_updateData formData) = parseSkills (skills_offered formData)"
  "skills_wanted (ProfileModal_updateData formData) = parseSkills (skills_wanted formData)"
  by (simp_all add: ProfileModal_updateData_def parseSkills_def)

lemma transmitted_RegisterForm:
  "concat (map transmittedSkills
     (snd (snd (RegisterForm_handleSubmit be setItem (formData, busy) a))))
     = [(parseSkills (skills_offered formData), parseSkills (skills_wanted formData))]"
proof -
  obtain ok a' evs
    where r: "register be setItem (RegisterForm_userData formData) a = (ok, a', evs)"
    by (cases "register be setItem (RegisterForm_userData formData) a") auto
  have "concat (map transmittedSkills evs)
      = [(parseSkills (skills_offered formData), parseSkills (skills_wanted formData))]"
    using transmitted_register [of be setItem "RegisterForm_userData formData" a] r
    by (simp add: RegisterForm_userData_skills)
  then show ?thesis
    by (simp add: RegisterForm_handleSubmit_def Let_def r)
qed

lemma transmitted_ProfileModal:
  "concat (map transmittedSkills (snd (snd (ProfileModal_handleSubmit be formData a))))
     = [(parseSkills (skills_offered formData), parseSkills (skills_wanted formData))]"
proof -
  obtain a' evs where f: "fetchUser be a = (a', evs)"
    by (cases "fetchUser be a") auto
  have "concat (map transmittedSkills evs) = []"
    using transmitted_fetchUser [of be a] f by simp
  then show ?thesis
    by (simp add: ProfileModal_handleSubmit_def Let_def f ProfileModal_updateData_skills
        split: sum.splits)
qed

lemma parseSkills_example: "parseSkills (js ''a, b ,c,'') = [js ''a'', js ''b'', js ''c'']"
  by (simp add: parseSkills_def split_def comma_def js_def trim_def isWhiteSpace_def)

section \<open>Facts about the dashboard\<close>

lemma fetchMyRequests_result:
  "take (Suc 0) (snd (fetchMyRequests be bearer d)) = [Call (GET_my_requests bearer)]"
  "myRequests (fst (fetchMyRequests be bearer d))
     = refetched (myRequests d) (swap_my_requests be bearer)"
  "incomingRequests (fst (fetchMyRequests be bearer d)) = incomingRequests d"
  by (simp_all add: fetchMyRequests_def refetched_def split: sum.splits)

lemma fetchIncomingRequests_result:
  "take (Suc 0) (snd (fetchIncomingRequests be bearer d)) = [Call (GET_incoming bearer)]"
  "incomingRequests (fst (fetchIncomingRequests be bearer d))
     = refetched (incomingRequests d) (swap_incoming be bearer)"
  "myRequests (fst (fetchIncomingRequests be bearer d)) = myRequests d"
  by (simp_all add: fetchIncomingRequests_def refetched_def split: sum.splits)

lemma updateSwapRequest_ok:
  "swap_update be requestId newStatus bearer = Inr ok \<Longrightarrow>
   updateSwapRequest be bearer requestId newStatus d =
     (if activeTab d = js ''incoming''
      then (fst (fetchIncomingRequests be bearer d),
            Call (PUT_swap_requests requestId newStatus bearer)
              # snd (fetchIncomingRequests be bearer d))
      else (fst (fetchMyRequests be bearer d),
            Call (PUT_swap_requests requestId newStatus bearer)
              # snd (fetchMyRequests be bearer d)))"
  by (simp add: updateSwapRequest_def split: prod.splits)

lemma deleteSwapRequest_ok:
  "swap_delete be requestId bearer = Inr ok \<Longrightarrow>
   deleteSwapRequest be bearer requestId d =
     (fst (fetchMyRequests be bearer d),
      Call (DELETE_swap_requests requestId bearer) # snd (fetchMyRequests be bearer d))"
  by (simp add: deleteSwapRequest_def split: prod.splits)

lemma take2_Cons: "take 2 (x # xs) = x # take (Suc 0) xs"
  by (simp add: numeral_2_eq_2)

lemma failed_fetches:
  "users_list be bearer = Inl e \<Longrightarrow>
     fetchUsers be bearer d
       = (d\<lparr>loading := False\<rparr>, [Call (GET_users bearer), ConsoleError ''Failed to fetch users:''])"
  "swap_my_requests be bearer = Inl e \<Longrightarrow>
     fetchMyRequests be bearer d
       = (d\<lparr>loading := False\<rparr>,
          [Call (GET_my_requests bearer), ConsoleError ''Failed to fetch requests:''])"
  "swap_incoming be bearer = Inl e \<Longrightarrow>
     fetchIncomingRequests be bearer d
       = (d\<lparr>loading := False\<rparr>,
          [Call (GET_incoming bearer), ConsoleError ''Failed to fetch incoming requests:''])"
  "trim (searchTerm d) \<noteq> [] \<Longrightarrow> users_search be (searchTerm d) bearer = Inl e \<Longrightarrow>
     searchBySkill be bearer d
       = (d\<lparr>loading := False\<rparr>,
          [Call (GET_users_search (searchTerm d) bearer), ConsoleError ''Search failed:''])"
  by (simp_all add: fetchUsers_def fetchMyRequests_def fetchIncomingRequests_def
      searchBySkill_def)

lemma failed_mutations:
  "swap_create be targetUserId requestedSkill offeredSkill bearer = Inl e \<Longrightarrow>
     createSwapRequest be bearer targetUserId requestedSkill offeredSkill d
       = (d, [Call (POST_swap_requests targetUserId requestedSkill offeredSkill bearer),
              ConsoleError ''Failed to create swap request:'',
              Alert ''Failed to send swap request''])"
  "swap_update be requestId newStatus bearer = Inl e \<Longrightarrow>
     updateSwapRequest be bearer requestId newStatus d
       = (d, [Call (PUT_swap_requests requestId newStatus bearer),
              ConsoleError ''Failed to update swap request:''])"
  "swap_delete be cancelledId bearer = Inl e \<Longrightarrow>
     deleteSwapRequest be bearer cancelledId d
       = (d, [Call (DELETE_swap_requests cancelledId bearer),
              ConsoleError ''Failed to delete swap request:''])"
  by (simp_all add: createSwapRequest_def updateSwapRequest_def deleteSwapRequest_def)

lemma failed_submits:
  "auth_login be em pw = Inl e \<Longrightarrow>
     LoginForm_handleSubmit be setItem (em, pw, busy) a
       = ((em, pw, False), a,
          [Call (POST_auth_login em pw), ConsoleError ''Login failed:'',
           Alert ''Login failed. Please check your credentials.''])"
  "auth_register be (RegisterForm_userData registerForm) = Inl e \<Longrightarrow>
     RegisterForm_handleSubmit be setItem (registerForm, busy) a
       = ((registerForm, False), a,
          [Call (POST_auth_register (RegisterForm_userData registerForm)),
           ConsoleError ''Registration failed:'',
           Alert ''Registration failed. Please try again.''])"
  "users_me_update be (ProfileModal_updateData profileForm) (stored_token a) = Inl e \<Longrightarrow>
     ProfileModal_handleSubmit be profileForm a
       = (a, False,
          [Call (PUT_users_me (ProfileModal_updateData profileForm) (stored_token a)),
           ConsoleError ''Failed to update profile:'',
           Alert ''Failed to update profile. Please try again.''])"
  by (simp_all add: LoginForm_handleSubmit_def login_def RegisterForm_handleSubmit_def
      register_def ProfileModal_handleSubmit_def Let_def)

section \<open>The claims\<close>

text \<open>
  C1. For each of the five status values and each of the two lists a request is shown in
  (incoming for the target user, outgoing for the requester), the buttons of
  \<open>SwapRequestCard\<close> invoke exactly the transitions the table allows that party from
  that status: Accept and Reject on an incoming pending request, Cancel Request on an
  outgoing pending one, Mark as Completed on an accepted one in either list, and no
  button on a rejected, completed or cancelled one.
\<close>

theorem SwapRequestCard_offers_table:
  "map snd (SwapRequestCard (r\<lparr>status := statusName s\<rparr>) (listType a))
     = map (handlerFor (request_id r)) (legalTransitions s a)
   \<and> map fst (SwapRequestCard (r\<lparr>status := statusName s\<rparr>) (listType a)) = expectedLabels s a"
  by (cases s; cases a)
     (simp_all add: SwapRequestCard_def legalTransitions_def transitionTable_def
        statusName_distinct)

text \<open>
  C2. Whatever the backend answers, submitting the registration form and saving the
  profile form each send exactly one request that carries skill lists, and the lists are
  the text of the two skills fields split on commas, each piece trimmed, the empty ones
  dropped; the text \<open>a, b ,c,\<close> is sent as the list a, b, c from either form.
\<close>

theorem skills_split_trimmed_nonEmpty:
  "concat (map transmittedSkills (snd (snd (RegisterForm_handleSubmit be setItem (registerForm, busy) a))))
     = [(commaSplitTrimmedNonEmpty (skills_offered registerForm),
         commaSplitTrimmedNonEmpty (skills_wanted registerForm))]
   \<and> concat (map transmittedSkills (snd (snd (ProfileModal_handleSubmit be profileForm a))))
     = [(commaSplitTrimmedNonEmpty (skills_offered profileForm),
         commaSplitTrimmedNonEmpty (skills_wanted profileForm))]
   \<and> concat (map transmittedSkills (snd (snd (RegisterForm_handleSubmit be setItem
         (registerForm\<lparr>skills_offered := js ''a, b ,c,''\<rparr>, busy) a))))
     = [([js ''a'', js ''b'', js ''c''], commaSplitTrimmedNonEmpty (skills_wanted registerForm))]
   \<and> concat (map transmittedSkills (snd (snd (ProfileModal_handleSubmit be
         (profileForm\<lparr>skills_offered := js ''a, b ,c,''\<rparr>) a))))
     = [([js ''a'', js ''b'', js ''c''], commaSplitTrimmedNonEmpty (skills_wanted profileForm))]"
  by (simp add: transmitted_RegisterForm transmitted_ProfileModal parseSkills_example
      parseSkills_spec [symmetric])

text \<open>
  C9. For a user whose offered and wanted skills are lists of labels that are not empty,
  carry no whitespace at either end and hold no comma, filling the profile form from the
  user and saving it unchanged sends exactly those two lists.
\<close>

theorem profile_skills_round_trip:
  assumes "user_skills_offered u = Some offered" and "user_skills_wanted u = Some wanted"
    and "\<forall>l \<in> set offered \<union> set wanted. wellFormedLabel l"
  shows "concat (map transmittedSkills
           (snd (snd (ProfileModal_handleSubmit be (ProfileModal_load (Some u) formData) a))))
         = [(offered, wanted)]"
proof -
  have "parseSkills (join (js '', '') offered) = offered"
    using assms(3) by (intro parseSkills_join) simp
  moreover have "parseSkills (join (js '', '') wanted) = wanted"
    using assms(3) by (intro parseSkills_join) simp
  ultimately show ?thesis
    using assms(1,2) by (simp add: transmitted_ProfileModal ProfileModal_load_def orEmpty_def)
qed

theorem profile_skills_round_trip_witness:
  "user_skills_offered alice = Some [js ''Guitar'', js ''Cooking'']
   \<and> user_skills_wanted alice = Some [js ''Spanish'']
   \<and> wellFormedLabel (js ''Guitar'') \<and> wellFormedLabel (js ''Cooking'')
   \<and> wellFormedLabel (js ''Spanish'')
   \<and> concat (map transmittedSkills
        (snd (snd (ProfileModal_handleSubmit onlineBackend
           (ProfileModal_load (Some alice) emptyProfileForm) aliceSession))))
      = [([js ''Guitar'', js ''Cooking''], [js ''Spanish''])]"
proof -
  have wf: "wellFormedLabel (js ''Guitar'')" "wellFormedLabel (js ''Cooking'')"
    "wellFormedLabel (js ''Spanish'')"
    by (simp_all add: wellFormedLabel_def js_def trim_def isWhiteSpace_def comma_def)
  have o: "user_skills_offered alice = Some [js ''Guitar'', js ''Cooking'']"
    and w: "user_skills_wanted alice = Some [js ''Spanish'']"
    by (simp_all add: alice_def)
  have "\<forall>l \<in> set [js ''Guitar'', js ''Cooking''] \<union> set [js ''Spanish'']. wellFormedLabel l"
    using wf by simp
  from profile_skills_round_trip [OF o w this, of onlineBackend emptyProfileForm aliceSession]
  show ?thesis using wf o w by simp
qed

text \<open>
  C3. For every session user and every state of the dashboard, no card of the browse tab
  shows a user whose id is the session user's; and whatever list the backend returns to
  the plain request for all users, the client stores that list whole and the cards are
  the entries of it that pass the client's own filter on the id.
\<close>

theorem directory_excludes_viewer:
  "(\<forall>u \<in> set (browseCards (Some me) d). user_id u \<noteq> user_id me)
   \<and> (users_list be bearer = Inr data \<longrightarrow>
        fetchUsers be bearer d0
          = (d0\<lparr>users := data, loading := False\<rparr>, [Call (GET_users bearer)])
        \<and> browseCards (Some me) (fst (fetchUsers be bearer d0))
            = filter (\<lambda>u. user_id u \<noteq> user_id me) data)"
  by (auto simp: browseCards_def fetchUsers_def)

theorem directory_excludes_viewer_witness:
  "users_list onlineBackend None = Inr [alice, bob]
   \<and> fetchUsers onlineBackend None freshDashboard
       = (freshDashboard\<lparr>users := [alice, bob], loading := False\<rparr>, [Call (GET_users None)])
   \<and> browseCards (Some alice) (fst (fetchUsers onlineBackend None freshDashboard)) = [bob]
   \<and> list_all (\<lambda>u. user_id u \<noteq> user_id alice)
        (browseCards (Some alice) (fst (fetchUsers onlineBackend None freshDashboard)))"
proof -
  have l: "users_list onlineBackend None = Inr [alice, bob]"
    by (simp add: onlineBackend_def)
  have ne: "user_id bob \<noteq> user_id alice"
    by (simp add: alice_def bob_def js_def)
  have keep: "filter (\<lambda>u. user_id u \<noteq> user_id alice) [alice, bob] = [bob]"
    using ne by simp
  note th = directory_excludes_viewer [of alice
      "fst (fetchUsers onlineBackend None freshDashboard)" onlineBackend None "[alice, bob]"
      freshDashboard]
  from th have all: "\<forall>u \<in> set (browseCards (Some alice)
      (fst (fetchUsers onlineBackend None freshDashboard))). user_id u \<noteq> user_id alice"
    by blast
  from th l have fetched: "fetchUsers onlineBackend None freshDashboard
      = (freshDashboard\<lparr>users := [alice, bob], loading := False\<rparr>, [Call (GET_users None)])"
    by blast
  from th l have "browseCards (Some alice) (fst (fetchUsers onlineBackend None freshDashboard))
      = filter (\<lambda>u. user_id u \<noteq> user_id alice) [alice, bob]"
    by blast
  then have cards: "browseCards (Some alice) (fst (fetchUsers onlineBackend None freshDashboard))
      = [bob]"
    by (simp only: keep)
  show ?thesis
    using l fetched cards all unfolding list_all_iff by blast
qed

text \<open>
  C4, as the claim is written, at the create operation: the service accepts the new
  request and would answer a fetch of the outgoing list with it, yet the client sends
  the creation request only, fetches no list and keeps its empty outgoing list.
\<close>

theorem create_without_refetch:
  "swap_create onlineBackend (js ''u-alice'') (js ''Guitar'') (js ''Spanish'') None = Inr ()
   \<and> swap_my_requests onlineBackend None = Inr [guitarRequest]
   \<and> createSwapRequest onlineBackend None (js ''u-alice'') (js ''Guitar'') (js ''Spanish'')
        freshDashboard
       = (freshDashboard,
          [Call (POST_swap_requests (js ''u-alice'') (js ''Guitar'') (js ''Spanish'') None),
           Alert ''Swap request sent successfully!''])
   \<and> \<not> list_ex isListFetch (snd (createSwapRequest onlineBackend None (js ''u-alice'')
          (js ''Guitar'') (js ''Spanish'') freshDashboard))
   \<and> myRequests (fst (createSwapRequest onlineBackend None (js ''u-alice'')
          (js ''Guitar'') (js ''Spanish'') freshDashboard)) = []"
  by (simp add: createSwapRequest_def onlineBackend_def freshDashboard_def)

text \<open>
  C4, amended. After a transition the service accepted, the manager fetches a request
  list again (the incoming list when the incoming tab is active, the outgoing list
  otherwise), and after a cancel the service accepted it fetches the outgoing list; the
  local list becomes the server's answer and the other list stays as it was. The create
  operation sends the creation request only: it fetches no list and leaves the dashboard
  state as it was; made from the browse tab, its result reaches the outgoing list when
  that tab is opened, which fetches the list.
\<close>

theorem refresh_after_transition_and_cancel:
  assumes "swap_update be requestId newStatus bearer = Inr ()"
    and "swap_delete be cancelledId bearer = Inr ()"
    and "activeTab d0 = js ''browse''"
  shows
   "take 2 (snd (updateSwapRequest be bearer requestId newStatus d))
      = [Call (PUT_swap_requests requestId newStatus bearer),
         Call (if activeTab d = js ''incoming'' then GET_incoming bearer
               else GET_my_requests bearer)]
    \<and> incomingRequests (fst (updateSwapRequest be bearer requestId newStatus d))
      = (if activeTab d = js ''incoming''
         then refetched (incomingRequests d) (swap_incoming be bearer)
         else incomingRequests d)
    \<and> myRequests (fst (updateSwapRequest be bearer requestId newStatus d))
      = (if activeTab d = js ''incoming'' then myRequests d
         else refetched (myRequests d) (swap_my_requests be bearer))
    \<and> take 2 (snd (deleteSwapRequest be bearer cancelledId d))
      = [Call (DELETE_swap_requests cancelledId bearer), Call (GET_my_requests bearer)]
    \<and> myRequests (fst (deleteSwapRequest be bearer cancelledId d))
      = refetched (myRequests d) (swap_my_requests be bearer)
    \<and> incomingRequests (fst (deleteSwapRequest be bearer cancelledId d)) = incomingRequests d
    \<and> fst (createSwapRequest be bearer targetUserId requestedSkill offeredSkill d0) = d0
    \<and> \<not> list_ex isListFetch
          (snd (createSwapRequest be bearer targetUserId requestedSkill offeredSkill d0))
    \<and> take 1 (snd (setActiveTab be bearer (js ''my-requests'') d0))
      = [Call (GET_my_requests bearer)]
    \<and> myRequests (fst (setActiveTab be bearer (js ''my-requests'') d0))
      = refetched (myRequests d0) (swap_my_requests be bearer)"
proof -
  have create: "fst (createSwapRequest be bearer targetUserId requestedSkill offeredSkill d0) = d0"
    "\<not> list_ex isListFetch
        (snd (createSwapRequest be bearer targetUserId requestedSkill offeredSkill d0))"
    by (simp_all add: createSwapRequest_def split: sum.splits)
  have "js ''my-requests'' \<noteq> js ''browse''"
    by (simp add: js_def)
  then have tab: "setActiveTab be bearer (js ''my-requests'') d0
      = fetchMyRequests be bearer (d0\<lparr>activeTab := js ''my-requests''\<rparr>)"
    using assms(3) by (simp add: setActiveTab_def Dashboard_effect_def)
  have opened: "take 1 (snd (setActiveTab be bearer (js ''my-requests'') d0))
      = [Call (GET_my_requests bearer)]"
    "myRequests (fst (setActiveTab be bearer (js ''my-requests'') d0))
      = refetched (myRequests d0) (swap_my_requests be bearer)"
    by (simp_all add: tab fetchMyRequests_result)
  have mutate: "take 2 (snd (updateSwapRequest be bearer requestId newStatus d))
      = [Call (PUT_swap_requests requestId newStatus bearer),
         Call (if activeTab d = js ''incoming'' then GET_incoming bearer
               else GET_my_requests bearer)]"
    "incomingRequests (fst (updateSwapRequest be bearer requestId newStatus d))
      = (if activeTab d = js ''incoming''
         then refetched (incomingRequests d) (swap_incoming be bearer)
         else incomingRequests d)"
    "myRequests (fst (updateSwapRequest be bearer requestId newStatus d))
      = (if activeTab d = js ''incoming'' then myRequests d
         else refetched (myRequests d) (swap_my_requests be bearer))"
    "take 2 (snd (deleteSwapRequest be bearer cancelledId d))
      = [Call (DELETE_swap_requests cancelledId bearer), Call (GET_my_requests bearer)]"
    "myRequests (fst (deleteSwapRequest be bearer cancelledId d))
      = refetched (myRequests d) (swap_my_requests be bearer)"
    "incomingRequests (fst (deleteSwapRequest be bearer cancelledId d)) = incomingRequests d"
    by (simp_all add: updateSwapRequest_ok [OF assms(1)] deleteSwapRequest_ok [OF assms(2)]
        take2_Cons fetchMyRequests_result fetchIncomingRequests_result)
  from mutate create opened show ?thesis by blast
qed

theorem refresh_after_transition_and_cancel_witness:
  "swap_update onlineBackend (js ''r-1'') (js ''accepted'') None = Inr ()
   \<and> swap_delete onlineBackend (js ''r-1'') None = Inr ()
   \<and> activeTab freshDashboard = js ''browse''
   \<and> take 2 (snd (updateSwapRequest onlineBackend None (js ''r-1'') (js ''accepted'') incomingTab))
      = [Call (PUT_swap_requests (js ''r-1'') (js ''accepted'') None), Call (GET_incoming None)]
   \<and> incomingRequests (fst (updateSwapRequest onlineBackend None (js ''r-1'') (js ''accepted'')
        incomingTab)) = [guitarRequest]
   \<and> take 2 (snd (deleteSwapRequest onlineBackend None (js ''r-1'') incomingTab))
      = [Call (DELETE_swap_requests (js ''r-1'') None), Call (GET_my_requests None)]
   \<and> myRequests (fst (deleteSwapRequest onlineBackend None (js ''r-1'') incomingTab))
      = [guitarRequest]
   \<and> fst (createSwapRequest onlineBackend None (js ''u-alice'') (js ''Guitar'') (js ''Spanish'')
        freshDashboard) = freshDashboard
   \<and> myRequests (fst (setActiveTab onlineBackend None (js ''my-requests'') freshDashboard))
      = [guitarRequest]"
proof -
  have u: "swap_update onlineBackend (js ''r-1'') (js ''accepted'') None = Inr ()"
    and dl: "swap_delete onlineBackend (js ''r-1'') None = Inr ()"
    by (simp_all add: onlineBackend_def)
  have browse: "activeTab freshDashboard = js ''browse''"
    by (simp add: freshDashboard_def)
  have tab: "activeTab incomingTab = js ''incoming''"
    by (simp add: incomingTab_def)
  have snap: "refetched (incomingRequests incomingTab) (swap_incoming onlineBackend None)
      = [guitarRequest]"
    "refetched (myRequests incomingTab) (swap_my_requests onlineBackend None) = [guitarRequest]"
    "refetched (myRequests freshDashboard) (swap_my_requests onlineBackend None)
      = [guitarRequest]"
    by (simp_all add: refetched_def onlineBackend_def)
  from refresh_after_transition_and_cancel [OF u dl browse, of incomingTab "js ''u-alice''"
      "js ''Guitar''" "js ''Spanish''"]
  show ?thesis using u dl browse by (simp only: tab snap if_True) simp
qed

text \<open>
  C5. The click handler of the user card, through which every creation passes, sends
  nothing and changes nothing when either prompted skill is empty (or its prompt was
  dismissed); a creation request is sent exactly when both skills are non-empty.
\<close>

theorem create_needs_both_skills:
  "(\<not> truthy requestedSkill \<or> \<not> truthy offeredSkill \<longrightarrow>
      UserCard_onClick be bearer targetUser requestedSkill offeredSkill d = (d, []))
   \<and> list_ex isCreateCall (snd (UserCard_onClick be bearer targetUser requestedSkill offeredSkill d))
       = (truthy requestedSkill \<and> truthy offeredSkill)"
  by (auto simp: UserCard_onClick_def createSwapRequest_def split: sum.splits)

theorem create_needs_both_skills_witness:
  "\<not> truthy (Some [])
   \<and> UserCard_onClick onlineBackend None alice (Some []) (Some (js ''Spanish'')) freshDashboard
       = (freshDashboard, [])
   \<and> UserCard_onClick onlineBackend None alice (Some (js ''Guitar'')) (Some []) freshDashboard
       = (freshDashboard, [])
   \<and> list_ex isCreateCall (snd (UserCard_onClick onlineBackend None alice
        (Some (js ''Guitar'')) (Some (js ''Spanish'')) freshDashboard))"
proof -
  have e: "\<not> truthy (Some [])" by (simp add: truthy_def)
  have t: "truthy (Some (js ''Guitar''))" "truthy (Some (js ''Spanish''))"
    by (simp_all add: truthy_def js_def)
  from create_needs_both_skills [of "Some []" "Some (js ''Spanish'')" onlineBackend None alice
      freshDashboard]
    create_needs_both_skills [of "Some (js ''Guitar'')" "Some []" onlineBackend None alice
      freshDashboard]
    create_needs_both_skills [of "Some (js ''Guitar'')" "Some (js ''Spanish'')" onlineBackend None
      alice freshDashboard]
  show ?thesis using e t by simp
qed

text \<open>
  C6, as the claim is written, at a transition that fails on a network error: the
  failure is logged to the console and no notification is shown.
\<close>

theorem silent_update_failure:
  "swap_update offlineBackend (js ''r-1'') (js ''accepted'') None = Inl NetworkError
   \<and> updateSwapRequest offlineBackend None (js ''r-1'') (js ''accepted'') incomingTab
       = (incomingTab, [Call (PUT_swap_requests (js ''r-1'') (js ''accepted'') None),
            ConsoleError ''Failed to update swap request:''])
   \<and> \<not> list_ex isAlert
         (snd (updateSwapRequest offlineBackend None (js ''r-1'') (js ''accepted'') incomingTab))"
  by (simp add: updateSwapRequest_def offlineBackend_def)

text \<open>
  C6, amended. For every failure of the request, an error status or a network error
  alike: a failed create, login, registration or profile save is logged and surfaced as
  a blocking alert with a fixed generic message, and leaves the state it was called in
  unchanged; a failed transition or cancel is logged to the console only, shows no
  notification, and leaves the dashboard state unchanged; a failed fetch of the users or
  of a request list and a failed search are logged to the console only and leave the
  lists unchanged, the loading flag ending lowered.
\<close>

theorem failure_effects:
  "(swap_create be targetUserId requestedSkill offeredSkill bearer = Inl e \<longrightarrow>
      createSwapRequest be bearer targetUserId requestedSkill offeredSkill d
        = (d, [Call (POST_swap_requests targetUserId requestedSkill offeredSkill bearer),
               ConsoleError ''Failed to create swap request:'',
               Alert ''Failed to send swap request'']))
   \<and> (swap_update be requestId newStatus bearer = Inl e \<longrightarrow>
      updateSwapRequest be bearer requestId newStatus d
        = (d, [Call (PUT_swap_requests requestId newStatus bearer),
               ConsoleError ''Failed to update swap request:'']))
   \<and> (swap_delete be cancelledId bearer = Inl e \<longrightarrow>
      deleteSwapRequest be bearer cancelledId d
        = (d, [Call (DELETE_swap_requests cancelledId bearer),
               ConsoleError ''Failed to delete swap request:'']))
   \<and> (users_list be bearer = Inl e \<longrightarrow>
      fetchUsers be bearer d
        = (d\<lparr>loading := False\<rparr>,
           [Call (GET_users bearer), ConsoleError ''Failed to fetch users:'']))
   \<and> (swap_my_requests be bearer = Inl e \<longrightarrow>
      fetchMyRequests be bearer d
        = (d\<lparr>loading := False\<rparr>,
           [Call (GET_my_requests bearer), ConsoleError ''Failed to fetch requests:'']))
   \<and> (swap_incoming be bearer = Inl e \<longrightarrow>
      fetchIncomingRequests be bearer d
        = (d\<lparr>loading := False\<rparr>,
           [Call (GET_incoming bearer), ConsoleError ''Failed to fetch incoming requests:'']))
   \<and> (trim (searchTerm d) \<noteq> [] \<and> users_search be (searchTerm d) bearer = Inl e \<longrightarrow>
      searchBySkill be bearer d
        = (d\<lparr>loading := False\<rparr>,
           [Call (GET_users_search (searchTerm d) bearer), ConsoleError ''Search failed:'']))
   \<and> (auth_login be em pw = Inl e \<longrightarrow>
      LoginForm_handleSubmit be setItem (em, pw, busy) a
        = ((em, pw, False), a,
           [Call (POST_auth_login em pw), ConsoleError ''Login failed:'',
            Alert ''Login failed. Please check your credentials.'']))
   \<and> (auth_register be (RegisterForm_userData registerForm) = Inl e \<longrightarrow>
      RegisterForm_handleSubmit be setItem (registerForm, busy) a
        = ((registerForm, False), a,
           [Call (POST_auth_register (RegisterForm_userData registerForm)),
            ConsoleError ''Registration failed:'',
            Alert ''Registration failed. Please try again.'']))
   \<and> (users_me_update be (ProfileModal_updateData profileForm) (stored_token a) = Inl e \<longrightarrow>
      ProfileModal_handleSubmit be profileForm a
        = (a, False,
           [Call (PUT_users_me (ProfileModal_updateData profileForm) (stored_token a)),
            ConsoleError ''Failed to update profile:'',
            Alert ''Failed to update profile. Please try again.'']))"
  by (intro conjI impI) (simp_all add: failed_mutations failed_fetches failed_submits)

theorem failure_effects_witness:
  "createSwapRequest offlineBackend None (js ''u-alice'') (js ''Guitar'') (js ''Spanish'')
        guitarSearch
      = (guitarSearch,
         [Call (POST_swap_requests (js ''u-alice'') (js ''Guitar'') (js ''Spanish'') None),
          ConsoleError ''Failed to create swap request:'',
          Alert ''Failed to send swap request''])
   \<and> updateSwapRequest offlineBackend None (js ''r-1'') (js ''accepted'') guitarSearch
      = (guitarSearch, [Call (PUT_swap_requests (js ''r-1'') (js ''accepted'') None),
          ConsoleError ''Failed to update swap request:''])
   \<and> deleteSwapRequest offlineBackend None (js ''r-1'') guitarSearch
      = (guitarSearch, [Call (DELETE_swap_requests (js ''r-1'') None),
          ConsoleError ''Failed to delete swap request:''])
   \<and> fetchUsers offlineBackend None guitarSearch
      = (guitarSearch\<lparr>loading := False\<rparr>,
         [Call (GET_users None), ConsoleError ''Failed to fetch users:''])
   \<and> fetchMyRequests offlineBackend None guitarSearch
      = (guitarSearch\<lparr>loading := False\<rparr>,
         [Call (GET_my_requests None), ConsoleError ''Failed to fetch requests:''])
   \<and> fetchIncomingRequests offlineBackend None guitarSearch
      = (guitarSearch\<lparr>loading := False\<rparr>,
         [Call (GET_incoming None), ConsoleError ''Failed to fetch incoming requests:''])
   \<and> searchBySkill offlineBackend None guitarSearch
      = (guitarSearch\<lparr>loading := False\<rparr>,
         [Call (GET_users_search (searchTerm guitarSearch) None),
          ConsoleError ''Search failed:''])
   \<and> LoginForm_handleSubmit offlineBackend roomyStorage (js ''a@x.org'', js ''pw'', False) aliceSession
      = ((js ''a@x.org'', js ''pw'', False), aliceSession,
         [Call (POST_auth_login (js ''a@x.org'') (js ''pw'')), ConsoleError ''Login failed:'',
          Alert ''Login failed. Please check your credentials.''])
   \<and> RegisterForm_handleSubmit offlineBackend roomyStorage (emptyRegisterForm, False) aliceSession
      = ((emptyRegisterForm, False), aliceSession,
         [Call (POST_auth_register (RegisterForm_userData emptyRegisterForm)),
          ConsoleError ''Registration failed:'',
          Alert ''Registration failed. Please try again.''])
   \<and> ProfileModal_handleSubmit offlineBackend emptyProfileForm aliceSession
      = (aliceSession, False,
         [Call (PUT_users_me (ProfileModal_updateData emptyProfileForm)
            (stored_token aliceSession)),
          ConsoleError ''Failed to update profile:'',
          Alert ''Failed to update profile. Please try again.''])"
proof -
  have down: "swap_create offlineBackend (js ''u-alice'') (js ''Guitar'') (js ''Spanish'') None
      = Inl NetworkError"
    "swap_update offlineBackend (js ''r-1'') (js ''accepted'') None = Inl NetworkError"
    "swap_delete offlineBackend (js ''r-1'') None = Inl NetworkError"
    "users_list offlineBackend None = Inl NetworkError"
    "swap_my_requests offlineBackend None = Inl NetworkError"
    "swap_incoming offlineBackend None = Inl NetworkError"
    "users_search offlineBackend (searchTerm guitarSearch) None = Inl NetworkError"
    "auth_login offlineBackend (js ''a@x.org'') (js ''pw'') = Inl NetworkError"
    "auth_register offlineBackend (RegisterForm_userData emptyRegisterForm) = Inl NetworkError"
    "users_me_update offlineBackend (ProfileModal_updateData emptyProfileForm)
       (stored_token aliceSession) = Inl NetworkError"
    by (simp_all add: offlineBackend_def)
  have nonblank: "trim (searchTerm guitarSearch) \<noteq> []"
    by (simp add: guitarSearch_def freshDashboard_def js_def trim_def isWhiteSpace_def)
  from failure_effects [of offlineBackend "js ''u-alice''" "js ''Guitar''" "js ''Spanish''" None
      NetworkError guitarSearch "js ''r-1''" "js ''accepted''" "js ''r-1''" "js ''a@x.org''"
      "js ''pw''" roomyStorage False aliceSession emptyRegisterForm emptyProfileForm]
    down nonblank
  show ?thesis by blast
qed




text \<open>
  C8. With an empty search term \<open>searchBySkill\<close> sends no request and returns the
  dashboard state it was given, the displayed user list included.
\<close>

theorem searchBySkill_empty_noop:
  "searchTerm d = [] \<Longrightarrow> searchBySkill be bearer d = (d, [])"
  by (simp add: searchBySkill_def trim_def)

theorem searchBySkill_empty_noop_witness:
  "searchTerm (freshDashboard\<lparr>users := [alice, bob]\<rparr>) = []
   \<and> searchBySkill onlineBackend None (freshDashboard\<lparr>users := [alice, bob]\<rparr>)
       = (freshDashboard\<lparr>users := [alice, bob]\<rparr>, [])"
proof -
  have e: "searchTerm (freshDashboard\<lparr>users := [alice, bob]\<rparr>) = []"
    by (simp add: freshDashboard_def)
  from searchBySkill_empty_noop [OF e, of onlineBackend None] e show ?thesis by simp
qed

text \<open>
  C10. Every failure of the request for the current user, an error status or a network
  error alike, ends in the logged-out session: no user, no token in memory, no stored
  token. Mounting the provider with a stored token runs that request, so one failure
  there discards the stored session.
\<close>

theorem fetchUser_failure_logs_out:
  "(auth_me be (token a) = Inl e \<longrightarrow> fst (fetchUser be a) = loggedOut)
   \<and> (truthy stored \<and> auth_me be stored = Inl e \<longrightarrow>
        AuthProvider_mount be stored
          = (loggedOut, [Call (GET_auth_me stored), ConsoleError ''Failed to fetch user:'']))"
  by (simp add: fetchUser_def logout_def loggedOut_def AuthProvider_mount_def
      AuthProvider_effect_def AuthProvider_init_def)

theorem fetchUser_failure_logs_out_witness:
  "auth_me offlineBackend (token aliceSession) = Inl NetworkError
   \<and> fst (fetchUser offlineBackend aliceSession) = loggedOut
   \<and> truthy (Some (js ''token-1''))
   \<and> auth_me offlineBackend (Some (js ''token-1'')) = Inl NetworkError
   \<and> AuthProvider_mount offlineBackend (Some (js ''token-1''))
       = (loggedOut, [Call (GET_auth_me (Some (js ''token-1''))),
            ConsoleError ''Failed to fetch user:''])"
proof -
  have f: "auth_me offlineBackend (token aliceSession) = Inl NetworkError"
    "auth_me offlineBackend (Some (js ''token-1'')) = Inl NetworkError"
    by (simp_all add: offlineBackend_def)
  have t: "truthy (Some (js ''token-1''))"
    by (simp add: truthy_def js_def)
  from fetchUser_failure_logs_out [of offlineBackend aliceSession NetworkError
      "Some (js ''token-1'')"]
  show ?thesis using f t by simp
qed

end
